theory Spec2Isabelle
  imports Complex_Main "HOL-Library.Sublist"
begin

section \<open>Data model\<close>

text \<open>
  The graph input of the article separation network is computed in
  \<^verbatim>\<open>citlab_article_separation/gnn/input/feature_generation.py\<close>.  The page objects
  (text regions, text lines, separator regions) come from the page parser of
  \<^verbatim>\<open>citlab_python_util\<close>; they are modelled as records holding the fields the
  functions read.  Python exceptions are values of type \<open>error\<close>, and a function that may
  raise returns \<open>error + 'a\<close>.
\<close>

datatype error = IndexError | KeyError | TypeError | ValueError | QhullError

type_synonym point = "int \<times> int"

text \<open>A bounding box in the order of \<^verbatim>\<open>get_bounding_box\<close>: min x, max x, min y, max y.\<close>

type_synonym bbox = "int \<times> int \<times> int \<times> int"

record text_line =
  line_id :: string
  line_text :: string

record text_region =
  region_id :: string
  region_points :: "point list"
  region_type :: string
  text_lines :: "text_line list"

text \<open>
  \<open>get_orientation\<close> is the value of \<^verbatim>\<open>separator_region.get_orientation()\<close>: the custom
  orientation tag of the region, or \<open>None\<close> when the region carries no tag.
\<close>

record separator_region =
  sep_id :: string
  sep_points :: "point list"
  get_orientation :: "string option"

section \<open>Geometry\<close>

text \<open>
  The point arrays are built with \<^verbatim>\<open>dtype=np.int32\<close>, so the minima and maxima are
  \<^verbatim>\<open>np.int32\<close> scalars and their sums and differences wrap around at 32 bits.
  Coordinates are integers of the int32 range; \<open>wrap32\<close> is written at every such sum and
  difference.
\<close>

definition wrap32 :: "int \<Rightarrow> int" where
  "wrap32 x = (x + 2147483648) mod 4294967296 - 2147483648"

text \<open>
  \<^verbatim>\<open>get_bounding_box\<close>: on an empty point list the array has shape \<open>(0,)\<close> and
  \<^verbatim>\<open>points[:, 0]\<close> raises IndexError.
\<close>

definition get_bounding_box :: "point list \<Rightarrow> error + bbox" where
  "get_bounding_box points =
     (if points = [] then Inl IndexError
      else Inr (Min (set (map fst points)), Max (set (map fst points)),
                Min (set (map snd points)), Max (set (map snd points))))"

text \<open>
  A \<^verbatim>\<open>LineString\<close> of two points is a pair of points with rational coordinates (the
  centres of bounding boxes are halves of integers, which floating point holds exactly).
  \<open>intersects\<close> stands for shapely's \<^verbatim>\<open>line.intersects(segment)\<close> on two such line
  strings: the two closed segments have a point in common, decided with the orientation of
  point triples.  A line string whose two points coincide has length zero, and shapely
  answers \<^verbatim>\<open>False\<close> for it.
\<close>

type_synonym rpoint = "rat \<times> rat"

type_synonym linestring = "rpoint \<times> rpoint"

definition rp :: "point \<Rightarrow> rpoint" where
  "rp p = (of_int (fst p), of_int (snd p))"

definition orient :: "rpoint \<Rightarrow> rpoint \<Rightarrow> rpoint \<Rightarrow> rat" where
  "orient p q r = (fst q - fst p) * (snd r - snd p) - (snd q - snd p) * (fst r - fst p)"

definition in_box :: "rpoint \<Rightarrow> rpoint \<Rightarrow> rpoint \<Rightarrow> bool" where
  "in_box p q r =
     (min (fst p) (fst q) \<le> fst r \<and> fst r \<le> max (fst p) (fst q) \<and>
      min (snd p) (snd q) \<le> snd r \<and> snd r \<le> max (snd p) (snd q))"

definition intersects :: "linestring \<Rightarrow> linestring \<Rightarrow> bool" where
  "intersects l s =
     (let p1 = fst l; q1 = snd l; p2 = fst s; q2 = snd s;
          d1 = orient p2 q2 p1; d2 = orient p2 q2 q1;
          d3 = orient p1 q1 p2; d4 = orient p1 q1 q2
      in if p1 = q1 \<or> p2 = q2 then False
         else (((d1 > 0 \<and> d2 < 0) \<or> (d1 < 0 \<and> d2 > 0)) \<and>
               ((d3 > 0 \<and> d4 < 0) \<or> (d3 < 0 \<and> d4 > 0)))
              \<or> (d1 = 0 \<and> in_box p2 q2 p1) \<or> (d2 = 0 \<and> in_box p2 q2 q1)
              \<or> (d3 = 0 \<and> in_box p1 q1 p2) \<or> (d4 = 0 \<and> in_box p1 q1 q2))"

text \<open>
  \<^verbatim>\<open>line_poly_intersection\<close>.  The polygon is closed in place:
  \<^verbatim>\<open>polygon.append(polygon[0])\<close> changes the list object of the caller, so the function
  returns the list after the call next to its result.  \<^verbatim>\<open>polygon[0]\<close> raises IndexError
  on an empty list.  \<open>segments_hit\<close> is the loop over the polygon's segments.
\<close>

fun segments_hit :: "linestring \<Rightarrow> point list \<Rightarrow> bool" where
  "segments_hit line (p1 # p2 # polygon) =
     (if intersects line (rp p1, rp p2) then True else segments_hit line (p2 # polygon))"
| "segments_hit line polygon = False"

definition line_poly_intersection :: "linestring \<Rightarrow> point list \<Rightarrow> error + (bool \<times> point list)" where
  "line_poly_intersection line polygon =
     (if polygon = [] then Inl IndexError
      else let polygon' = (if hd polygon \<noteq> last polygon then polygon @ [hd polygon] else polygon)
           in Inr (segments_hit line polygon', polygon'))"

text \<open>
  \<^verbatim>\<open>line_in_bounding_box\<close>: \<^verbatim>\<open>line.bounds\<close> is (min x, min y, max x, max y) of the line.
\<close>

definition bounds :: "linestring \<Rightarrow> rat \<times> rat \<times> rat \<times> rat" where
  "bounds line =
     (min (fst (fst line)) (fst (snd line)), min (snd (fst line)) (snd (snd line)),
      max (fst (fst line)) (fst (snd line)), max (snd (fst line)) (snd (snd line)))"

definition line_in_bounding_box :: "linestring \<Rightarrow> int \<Rightarrow> int \<Rightarrow> int \<Rightarrow> int \<Rightarrow> bool" where
  "line_in_bounding_box line min_x max_x min_y max_y =
     (case bounds line of (x1, y1, x2, y2) \<Rightarrow>
        if x1 > of_int min_x \<and> x2 < of_int max_x \<and> y1 > of_int min_y \<and> y2 < of_int max_y
        then True else False)"

section \<open>Separator classifier\<close>

subsection \<open>Line strategy\<close>

text \<open>
  The height-width ratio of a separator's bounding box.  The quotient of two
  \<^verbatim>\<open>float\<close>s of int32 values is compared with 5; the comparison of the exact quotient
  gives the same answer.
\<close>

definition bb_ratio :: "bbox \<Rightarrow> rat" where
  "bb_ratio bb =
     (case bb of (min_x_s, max_x_s, min_y_s, max_y_s) \<Rightarrow>
        let width = max (wrap32 (max_x_s - min_x_s)) 1;
            height = max (wrap32 (max_y_s - min_y_s)) 1
        in of_int height / of_int width)"

text \<open>
  The branch \<^verbatim>\<open>elif separator_region == 'vertical'\<close> of the line strategy compares the
  region object itself with a string, which is never equal.
\<close>

definition region_equals_str :: "separator_region \<Rightarrow> string \<Rightarrow> bool" where
  "region_equals_str separator_region s = False"

text \<open>
  The loop over the separator regions of \<^verbatim>\<open>get_edge_separator_feature_line\<close>, with the
  two flags as arguments.  It returns the flags (or the exception) and the separator regions
  as the loop leaves them: the second call of \<^verbatim>\<open>line_poly_intersection\<close> receives the
  region's own point list.
\<close>

fun separator_loop_line ::
  "linestring \<Rightarrow> bool \<Rightarrow> bool \<Rightarrow> separator_region list
     \<Rightarrow> (error + bool \<times> bool) \<times> separator_region list" where
  "separator_loop_line tr_segment horizontally_separated vertically_separated [] =
     (Inr (horizontally_separated, vertically_separated), [])"
| "separator_loop_line tr_segment horizontally_separated vertically_separated
       (separator_region # rest) =
     (case get_bounding_box (sep_points separator_region) of
        Inl e \<Rightarrow> (Inl e, separator_region # rest)
      | Inr (min_x_s, max_x_s, min_y_s, max_y_s) \<Rightarrow>
          let ratio = bb_ratio (min_x_s, max_x_s, min_y_s, max_y_s);
              s1 = (min_x_s, min_y_s); s2 = (max_x_s, min_y_s);
              s3 = (min_x_s, max_y_s); s4 = (max_x_s, max_y_s)
          in (case line_poly_intersection tr_segment [s1, s2, s3, s4] of
                Inl e \<Rightarrow> (Inl e, separator_region # rest)
              | Inr (prior, _) \<Rightarrow>
                  if prior \<or> line_in_bounding_box tr_segment min_x_s max_x_s min_y_s max_y_s
                  then
                    (case line_poly_intersection tr_segment (sep_points separator_region) of
                       Inl e \<Rightarrow> (Inl e, separator_region # rest)
                     | Inr (hit, points') \<Rightarrow>
                         let separator_region' = separator_region\<lparr>sep_points := points'\<rparr> in
                         if hit then
                           let sep_orientation = get_orientation separator_region';
                               h = (if sep_orientation = Some ''horizontal'' then True
                                    else if region_equals_str separator_region' ''vertical''
                                    then horizontally_separated
                                    else if ratio < 5 then True else horizontally_separated);
                               v = (if sep_orientation = Some ''horizontal'' then vertically_separated
                                    else if region_equals_str separator_region' ''vertical''
                                    then True
                                    else if ratio < 5 then vertically_separated else True)
                           in if h \<and> v then (Inr (h, v), separator_region' # rest)
                              else (case separator_loop_line tr_segment h v rest of
                                      (r, rest') \<Rightarrow> (r, separator_region' # rest'))
                         else (case separator_loop_line tr_segment horizontally_separated
                                      vertically_separated rest of
                                 (r, rest') \<Rightarrow> (r, separator_region' # rest')))
                  else (case separator_loop_line tr_segment horizontally_separated
                               vertically_separated rest of
                          (r, rest') \<Rightarrow> (r, separator_region # rest'))))"

text \<open>The centre of a bounding box, as \<^verbatim>\<open>(min + max) / 2\<close> on int32 scalars.\<close>

definition center :: "bbox \<Rightarrow> rpoint" where
  "center bb =
     (case bb of (min_x, max_x, min_y, max_y) \<Rightarrow>
        (of_int (wrap32 (min_x + max_x)) / 2, of_int (wrap32 (min_y + max_y)) / 2))"

text \<open>The feature \<^verbatim>\<open>[float(horizontally_separated), float(vertically_separated)]\<close>.\<close>

definition separator_feature :: "bool \<times> bool \<Rightarrow> rat list" where
  "separator_feature hv = [of_bool (fst hv), of_bool (snd hv)]"

definition get_edge_separator_feature_line ::
  "text_region \<Rightarrow> text_region \<Rightarrow> separator_region list
     \<Rightarrow> (error + rat list) \<times> separator_region list" where
  "get_edge_separator_feature_line text_region_a text_region_b separator_regions =
     (case get_bounding_box (region_points text_region_a) of
        Inl e \<Rightarrow> (Inl e, separator_regions)
      | Inr bb_a \<Rightarrow>
          (case get_bounding_box (region_points text_region_b) of
             Inl e \<Rightarrow> (Inl e, separator_regions)
           | Inr bb_b \<Rightarrow>
               let tr_segment = (center bb_a, center bb_b) in
               (case separator_loop_line tr_segment False False separator_regions of
                  (Inl e, separator_regions') \<Rightarrow> (Inl e, separator_regions')
                | (Inr hv, separator_regions') \<Rightarrow> (Inr (separator_feature hv), separator_regions'))))"

subsection \<open>Bounding-box strategy\<close>

fun is_vertically_separated :: "bbox \<Rightarrow> bbox \<Rightarrow> bbox \<Rightarrow> bool" where
  "is_vertically_separated (min_x_a, max_x_a, min_y_a, max_y_a)
       (min_x_b, max_x_b, min_y_b, max_y_b) (min_x_sep, max_x_sep, min_y_sep, max_y_sep) =
     (let mean_x_sep = (of_int (wrap32 (min_x_sep + max_x_sep)) :: rat) / 2 in
      if \<not> ((of_int max_x_a \<le> mean_x_sep \<and> mean_x_sep \<le> of_int min_x_b) \<or>
             (of_int max_x_b \<le> mean_x_sep \<and> mean_x_sep \<le> of_int min_x_a))
      then False
      else if \<not> ((max_y_a \<ge> min_y_sep \<and> min_y_a \<le> max_y_sep) \<or>
                  (max_y_b \<ge> min_y_sep \<and> min_y_b \<le> max_y_sep))
      then False
      else True)"

fun is_horizontally_separated :: "bbox \<Rightarrow> bbox \<Rightarrow> bbox \<Rightarrow> bool" where
  "is_horizontally_separated (min_x_a, max_x_a, min_y_a, max_y_a)
       (min_x_b, max_x_b, min_y_b, max_y_b) (min_x_sep, max_x_sep, min_y_sep, max_y_sep) =
     (if \<not> ((min_y_a \<le> min_y_sep \<and> max_y_sep \<le> max_y_b) \<or>
             (min_y_b \<le> min_y_sep \<and> max_y_sep \<le> max_y_a))
      then False
      else if (max_x_a \<le> min_x_sep \<and> max_x_b \<le> min_x_sep) \<or>
              (min_x_a \<ge> max_x_sep \<and> min_x_b \<ge> max_x_sep)
      then False
      else True)"

text \<open>
  The orientation used by the bounding-box strategy: the tag, or the ratio check when
  \<^verbatim>\<open>get_orientation()\<close> is \<^verbatim>\<open>None\<close>.
\<close>

definition resolve_orientation :: "separator_region \<Rightarrow> bbox \<Rightarrow> string" where
  "resolve_orientation separator_region bb_sep =
     (case get_orientation separator_region of
        None \<Rightarrow> (if bb_ratio bb_sep < 5 then ''horizontal'' else ''vertical'')
      | Some orientation \<Rightarrow> orientation)"

fun separator_loop_bb ::
  "bbox \<Rightarrow> bbox \<Rightarrow> bool \<Rightarrow> bool \<Rightarrow> separator_region list \<Rightarrow> error + bool \<times> bool" where
  "separator_loop_bb bb_a bb_b horizontally_separated vertically_separated [] =
     Inr (horizontally_separated, vertically_separated)"
| "separator_loop_bb bb_a bb_b horizontally_separated vertically_separated
       (separator_region # rest) =
     (case get_bounding_box (sep_points separator_region) of
        Inl e \<Rightarrow> Inl e
      | Inr bb_sep \<Rightarrow>
          let orientation = resolve_orientation separator_region bb_sep;
              v = (if orientation = ''vertical''
                   then (if is_vertically_separated bb_a bb_b bb_sep then True
                         else vertically_separated)
                   else vertically_separated);
              h = (if orientation = ''vertical'' then horizontally_separated
                   else (if is_horizontally_separated bb_a bb_b bb_sep then True
                         else horizontally_separated))
          in if h \<and> v then Inr (h, v) else separator_loop_bb bb_a bb_b h v rest)"

definition get_edge_separator_feature_bb ::
  "text_region \<Rightarrow> text_region \<Rightarrow> separator_region list \<Rightarrow> error + rat list" where
  "get_edge_separator_feature_bb text_region_a text_region_b separator_regions =
     (case get_bounding_box (region_points text_region_a) of
        Inl e \<Rightarrow> Inl e
      | Inr bb_a \<Rightarrow>
          (case get_bounding_box (region_points text_region_b) of
             Inl e \<Rightarrow> Inl e
           | Inr bb_b \<Rightarrow>
               (case separator_loop_bb bb_a bb_b False False separator_regions of
                  Inl e \<Rightarrow> Inl e
                | Inr hv \<Rightarrow> Inr (separator_feature hv))))"

section \<open>Topology\<close>

text \<open>
  \<^verbatim>\<open>np.delete(arr, del_indices, axis=0)\<close> on a list of rows: the rows whose position is
  among the indices are left out.
\<close>

definition np_delete :: "'a list \<Rightarrow> nat list \<Rightarrow> 'a list" where
  "np_delete arr obj = map snd (filter (\<lambda>(k, row). k \<notin> set obj) (enumerate 0 arr))"

definition del_indices :: "nat \<Rightarrow> nat list" where
  "del_indices num_nodes = map (\<lambda>k. k * (num_nodes + 1)) [0..<num_nodes]"

text \<open>
  \<^verbatim>\<open>fully_connected_edges\<close>: \<open>node_indices\<close> is the \<open>num_nodes \<times> num_nodes\<close> matrix whose
  rows are \<open>0 .. num_nodes - 1\<close>, \<open>node_indices_t\<close> its transpose; stacking them on a third
  axis and reshaping lists the pairs row by row.
\<close>

definition fully_connected_edges :: "nat \<Rightarrow> (nat \<times> nat) list" where
  "fully_connected_edges num_nodes =
     (let node_indices = replicate num_nodes [0..<num_nodes];
          node_indices_t = map (\<lambda>i. replicate num_nodes i) [0..<num_nodes];
          interacting_nodes = concat (map2 zip node_indices_t node_indices)
      in np_delete interacting_nodes (del_indices num_nodes))"

text \<open>
  The order the specification gives for the Fully topology: an outer loop over the source
  index, an inner loop over the target index, the self-pairs left out.
\<close>

definition fully_order :: "nat \<Rightarrow> (nat \<times> nat) list" where
  "fully_order n = concat (map (\<lambda>i. map (Pair i) (filter (\<lambda>j. j \<noteq> i) [0..<n])) [0..<n])"

section \<open>Region discard\<close>

text \<open>
  \<^verbatim>\<open>discard_text_regions_and_lines\<close>.  The bounding box of a region comes from
  \<^verbatim>\<open>tr.points.to_polygon().get_bounding_box()\<close> of \<^verbatim>\<open>citlab_python_util\<close>; its width and
  height are the parameter \<open>bounding_box\<close>.  The loop runs over a copy of the region list
  and removes from the list itself (\<^verbatim>\<open>list.remove\<close> takes out the first equal element);
  the counter \<^verbatim>\<open>discard\<close> only feeds the log.  \<open>page_text_lines\<close> is the optional
  parameter \<^verbatim>\<open>text_lines\<close>; \<^verbatim>\<open>if text_lines\<close> is false for \<^verbatim>\<open>None\<close> and for the empty list.
\<close>

definition no_text :: "text_region \<Rightarrow> bool" where
  "no_text tr = (text_lines tr = [] \<or> list_all (\<lambda>text_line. line_text text_line = []) (text_lines tr))"

definition truthy_list :: "'a list option \<Rightarrow> bool" where
  "truthy_list xs = (case xs of None \<Rightarrow> False | Some ys \<Rightarrow> ys \<noteq> [])"

definition discard_step ::
  "(point list \<Rightarrow> int \<times> int) \<Rightarrow> text_line list option \<Rightarrow> text_region
     \<Rightarrow> text_region list \<times> string list \<Rightarrow> text_region list \<times> string list" where
  "discard_step bounding_box page_text_lines tr state =
     (case state of (text_regions, text_lines_to_remove) \<Rightarrow>
        if no_text tr then (remove1 tr text_regions, text_lines_to_remove)
        else (case bounding_box (region_points tr) of (width, height) \<Rightarrow>
                if width < 10 \<or> height < 10
                then (remove1 tr text_regions,
                      if truthy_list page_text_lines
                      then text_lines_to_remove @ map line_id (text_lines tr)
                      else text_lines_to_remove)
                else (text_regions, text_lines_to_remove)))"

definition discard_text_regions_and_lines ::
  "(point list \<Rightarrow> int \<times> int) \<Rightarrow> text_region list \<Rightarrow> text_line list option
     \<Rightarrow> text_region list \<times> text_line list option" where
  "discard_text_regions_and_lines bounding_box text_regions page_text_lines =
     (case fold (discard_step bounding_box page_text_lines) text_regions (text_regions, []) of
        (text_regions', text_lines_to_remove) \<Rightarrow>
          (text_regions',
           if text_lines_to_remove \<noteq> []
           then map_option (filter (\<lambda>line. line_id line \<notin> set text_lines_to_remove)) page_text_lines
           else page_text_lines))"

section \<open>External feature tables\<close>

text \<open>
  The external feature files and the similarity table are what \<^verbatim>\<open>json.load\<close> returns.
  An object is the list of its entries, with distinct keys.  \<open>py_getitem\<close> is \<^verbatim>\<open>v[k]\<close> for
  a string key, \<open>py_contains\<close> is \<^verbatim>\<open>k in v\<close>, \<open>py_extend\<close> is \<^verbatim>\<open>feature.extend(v)\<close>.
\<close>

datatype json = JNull | JBool bool | JNum rat | JStr string | JArr "json list"
  | JObj "(string \<times> json) list"

definition and_then :: "error + 'a \<Rightarrow> ('a \<Rightarrow> error + 'b) \<Rightarrow> error + 'b" where
  "and_then m f = (case m of Inl e \<Rightarrow> Inl e | Inr x \<Rightarrow> f x)"

fun py_getitem :: "json \<Rightarrow> string \<Rightarrow> error + json" where
  "py_getitem (JObj entries) k = (case map_of entries k of None \<Rightarrow> Inl KeyError | Some v \<Rightarrow> Inr v)"
| "py_getitem v k = Inl TypeError"

fun py_contains :: "string \<Rightarrow> json \<Rightarrow> error + bool" where
  "py_contains k (JObj entries) = Inr (k \<in> set (map fst entries))"
| "py_contains k (JArr vs) = Inr (JStr k \<in> set vs)"
| "py_contains k (JStr s) = Inr (sublist k s)"
| "py_contains k v = Inl TypeError"

fun py_extend :: "json list \<Rightarrow> json \<Rightarrow> error + json list" where
  "py_extend feature (JArr vs) = Inr (feature @ vs)"
| "py_extend feature (JStr s) = Inr (feature @ map (\<lambda>c. JStr [c]) s)"
| "py_extend feature (JObj entries) = Inr (feature @ map (\<lambda>kv. JStr (fst kv)) entries)"
| "py_extend feature v = Inl TypeError"

fun py_truthy :: "json \<Rightarrow> bool" where
  "py_truthy JNull = False"
| "py_truthy (JBool b) = b"
| "py_truthy (JNum x) = (x \<noteq> 0)"
| "py_truthy (JStr s) = (s \<noteq> [])"
| "py_truthy (JArr vs) = (vs \<noteq> [])"
| "py_truthy (JObj entries) = (entries \<noteq> [])"

text \<open>
  The external block of a node feature for one source whose page entry holds
  \<^verbatim>\<open>'node_features'\<close>: the entry of the region, else the entry \<^verbatim>\<open>'default'\<close> wrapped in
  a list, else \<open>0.0\<close>.  Only KeyError is caught.
\<close>

definition node_external_block :: "json \<Rightarrow> string \<Rightarrow> json list \<Rightarrow> error + json list" where
  "node_external_block ext_page rid node_feature =
     (case and_then (py_getitem ext_page ''node_features'') (\<lambda>table.
           and_then (py_getitem table rid) (\<lambda>v. py_extend node_feature v)) of
        Inr node_feature' \<Rightarrow> Inr node_feature'
      | Inl e \<Rightarrow>
          if e = KeyError then
            (case and_then (py_getitem ext_page ''node_features'') (\<lambda>table.
                  py_getitem table ''default'') of
               Inr d \<Rightarrow> Inr (node_feature @ [d])
             | Inl e' \<Rightarrow> if e' = KeyError then Inr (node_feature @ [JNum 0]) else Inl e')
          else Inl e)"

fun node_external_features :: "json list \<Rightarrow> string \<Rightarrow> string \<Rightarrow> json list \<Rightarrow> error + json list" where
  "node_external_features [] page_name rid node_feature = Inr node_feature"
| "node_external_features (ext # external_data) page_name rid node_feature =
     (case py_getitem ext page_name of
        Inl e \<Rightarrow> if e = KeyError then node_external_features external_data page_name rid node_feature
                 else Inl e
      | Inr ext_page \<Rightarrow>
          (case py_contains ''node_features'' ext_page of
             Inl e \<Rightarrow> Inl e
           | Inr present \<Rightarrow>
               if present then
                 (case node_external_block ext_page rid node_feature of
                    Inl e \<Rightarrow> Inl e
                  | Inr node_feature' \<Rightarrow>
                      node_external_features external_data page_name rid node_feature')
               else node_external_features external_data page_name rid node_feature))"

text \<open>
  The external block of an edge feature: the entry of the pair of regions, else the entry
  \<^verbatim>\<open>'default'\<close>, else \<open>0.5\<close>.  The first lookup catches KeyError and TypeError, the second
  KeyError.
\<close>

definition edge_external_block :: "json \<Rightarrow> string \<Rightarrow> string \<Rightarrow> json list \<Rightarrow> error + json list" where
  "edge_external_block ext_page a_id b_id edge_feature =
     (case and_then (py_getitem ext_page ''edge_features'') (\<lambda>table.
           and_then (py_getitem table a_id) (\<lambda>row.
           and_then (py_getitem row b_id) (\<lambda>v. py_extend edge_feature v))) of
        Inr edge_feature' \<Rightarrow> Inr edge_feature'
      | Inl e \<Rightarrow>
          if e = KeyError \<or> e = TypeError then
            (case and_then (py_getitem ext_page ''edge_features'') (\<lambda>table.
                  and_then (py_getitem table ''default'') (\<lambda>d. py_extend edge_feature d)) of
               Inr edge_feature' \<Rightarrow> Inr edge_feature'
             | Inl e' \<Rightarrow> if e' = KeyError then Inr (edge_feature @ [JNum (1 / 2)]) else Inl e')
          else Inl e)"

fun edge_external_features ::
  "json list \<Rightarrow> string \<Rightarrow> string \<Rightarrow> string \<Rightarrow> json list \<Rightarrow> error + json list" where
  "edge_external_features [] page_name a_id b_id edge_feature = Inr edge_feature"
| "edge_external_features (ext # external_data) page_name a_id b_id edge_feature =
     (case py_getitem ext page_name of
        Inl e \<Rightarrow> if e = KeyError
                 then edge_external_features external_data page_name a_id b_id edge_feature
                 else Inl e
      | Inr ext_page \<Rightarrow>
          (case py_contains ''edge_features'' ext_page of
             Inl e \<Rightarrow> Inl e
           | Inr present \<Rightarrow>
               if present then
                 (case edge_external_block ext_page a_id b_id edge_feature of
                    Inl e \<Rightarrow> Inl e
                  | Inr edge_feature' \<Rightarrow>
                      edge_external_features external_data page_name a_id b_id edge_feature')
               else edge_external_features external_data page_name a_id b_id edge_feature))"

text \<open>
  The similarity block of an edge feature reads the table of the similarity extractor in
  the same way; both lookups catch KeyError only.
\<close>

definition edge_similarity_block :: "json \<Rightarrow> string \<Rightarrow> string \<Rightarrow> json list \<Rightarrow> error + json list" where
  "edge_similarity_block tb_sim_dict a_id b_id edge_feature =
     (case and_then (py_getitem tb_sim_dict ''edge_features'') (\<lambda>table.
           and_then (py_getitem table a_id) (\<lambda>row.
           and_then (py_getitem row b_id) (\<lambda>v. py_extend edge_feature v))) of
        Inr edge_feature' \<Rightarrow> Inr edge_feature'
      | Inl e \<Rightarrow>
          if e = KeyError then
            (case and_then (py_getitem tb_sim_dict ''edge_features'') (\<lambda>table.
                  and_then (py_getitem table ''default'') (\<lambda>d. py_extend edge_feature d)) of
               Inr edge_feature' \<Rightarrow> Inr edge_feature'
             | Inl e' \<Rightarrow> if e' = KeyError then Inr (edge_feature @ [JNum (1 / 2)]) else Inl e')
          else Inl e)"

section \<open>Ground truth\<close>

text \<open>
  The article dictionary maps a region id to an article id or to a list of article ids.
  \<open>effective_id\<close> is the value the loop appends to \<^verbatim>\<open>tr_gt_article_ids\<close>: the first
  element of a list of more than one element, and the value itself otherwise.
\<close>

datatype article_val = ANone | AStr string | AList "article_val list"

fun effective_id :: "article_val \<Rightarrow> article_val" where
  "effective_id (AList ids) = (if length ids > 1 then hd ids else AList ids)"
| "effective_id v = v"

fun tr_gt_article_ids ::
  "(string \<rightharpoonup> article_val) \<Rightarrow> text_region list \<Rightarrow> article_val list \<Rightarrow> error + article_val list" where
  "tr_gt_article_ids article_dict [] acc = Inr acc"
| "tr_gt_article_ids article_dict (text_region # text_regions) acc =
     (case article_dict (region_id text_region) of
        None \<Rightarrow> Inl KeyError
      | Some tr_article_ids \<Rightarrow>
          tr_gt_article_ids article_dict text_regions (acc @ [effective_id tr_article_ids]))"

text \<open>The two nested loops over \<^verbatim>\<open>enumerate(tr_gt_article_ids)\<close>; a relation is \<open>[1, i, j]\<close>.\<close>

definition gt_inner ::
  "nat \<times> article_val \<Rightarrow> (nat \<times> article_val) list \<Rightarrow> (nat \<times> nat \<times> nat) list
     \<Rightarrow> (nat \<times> nat \<times> nat) list" where
  "gt_inner i_entry entries gt_relations =
     fold (\<lambda>j_entry gt. if snd i_entry = snd j_entry then gt @ [(1, fst i_entry, fst j_entry)] else gt)
       entries gt_relations"

definition build_gt :: "article_val list \<Rightarrow> (nat \<times> nat \<times> nat) list" where
  "build_gt ids = fold (\<lambda>i_entry gt. gt_inner i_entry (enumerate 0 ids) gt) (enumerate 0 ids) []"

definition ground_truth ::
  "(string \<rightharpoonup> article_val) \<Rightarrow> text_region list \<Rightarrow> error + (nat \<times> nat \<times> nat) list" where
  "ground_truth article_dict text_regions =
     (case tr_gt_article_ids article_dict text_regions [] of
        Inl e \<Rightarrow> Inl e
      | Inr ids \<Rightarrow> Inr (build_gt ids))"

section \<open>Delaunay topology\<close>

text \<open>
  \<^verbatim>\<open>delaunay_edges\<close>.  The triangulation is scipy's: \<open>Delaunay\<close> gives the pair
  \<^verbatim>\<open>vertex_neighbor_vertices\<close> of a point array, or \<open>None\<close> where it raises QhullError;
  \<open>round_base\<close> rounds the positions to multiples of 50.  Node positions are floating
  point arrays, kept as a type parameter.  \<open>neighbor_edges\<close> is the loop over the vertices:
  \<^verbatim>\<open>indices[indice_pointer[v]:indice_pointer[v + 1]]\<close>; reading past the end of
  \<^verbatim>\<open>indice_pointer\<close> raises IndexError, and \<^verbatim>\<open>np.concatenate\<close> of no array raises
  ValueError.
\<close>

definition neighbor_edges :: "nat \<Rightarrow> nat list \<times> nat list \<Rightarrow> error + (nat \<times> nat) list" where
  "neighbor_edges num_nodes vertex_neighbor_vertices =
     (case vertex_neighbor_vertices of (indice_pointer, indices) \<Rightarrow>
        if num_nodes = 0 then Inl ValueError
        else if length indice_pointer \<le> num_nodes then Inl IndexError
        else Inr (concat (map (\<lambda>v.
               map (Pair v) (take (indice_pointer ! (v + 1) - indice_pointer ! v)
                                  (drop (indice_pointer ! v) indices)))
               [0..<num_nodes])))"

definition delaunay_edges ::
  "('pos \<Rightarrow> (nat list \<times> nat list) option) \<Rightarrow> ('pos \<Rightarrow> 'pos) \<Rightarrow> nat \<Rightarrow> 'pos
     \<Rightarrow> error + (nat \<times> nat) list" where
  "delaunay_edges Delaunay round_base num_nodes node_positions =
     (case Delaunay (round_base node_positions) of
        Some delaunay \<Rightarrow> neighbor_edges num_nodes delaunay
      | None \<Rightarrow>
          (case Delaunay node_positions of
             Some delaunay \<Rightarrow> neighbor_edges num_nodes delaunay
           | None \<Rightarrow> Inl QhullError))"

section \<open>Building the graph of a page\<close>

datatype interaction = Fully | Delaunay_mode

datatype separators = Line | BB

text \<open>
  What \<^verbatim>\<open>get_data_from_pagexml\<close> returns for a page: the text regions and the separator
  regions of the region dictionary (\<open>None\<close> where the key is absent), the text lines and the
  article dictionary.
\<close>

record page =
  page_path :: string
  page_text_regions :: "text_region list option"
  page_separator_regions :: "separator_region list option"
  page_text_lines :: "text_line list"
  page_article_dict :: "string \<rightharpoonup> article_val"

text \<open>
  \<^verbatim>\<open>np.array(rows, dtype=np.float32)\<close> on a list of feature rows.  Rows of numbers
  and booleans become an array when they have the same width, and raise ValueError when
  their widths differ; a number counts when it is at most \<open>2 ^ 127\<close> in absolute value,
  which is in the range of \<^verbatim>\<open>float32\<close>, so that it is converted without an exception.
  What numpy does with rows that hold a larger number, a string, \<^verbatim>\<open>None\<close>, a list or
  a dictionary depends on these values and is the parameter \<open>other\<close>.  The result is
  the exception, if any.
\<close>

definition float_bound :: rat where
  "float_bound = 2 ^ 127"

fun is_number :: "json \<Rightarrow> bool" where
  "is_number (JNum x) = (\<bar>x\<bar> \<le> float_bound)"
| "is_number (JBool b) = True"
| "is_number v = False"

fun same_width :: "'a list list \<Rightarrow> bool" where
  "same_width [] = True"
| "same_width (row # rows) = list_all (\<lambda>row'. length row' = length row) rows"

definition np_array_float32 ::
  "(json list list \<Rightarrow> error option) \<Rightarrow> json list list \<Rightarrow> error option" where
  "np_array_float32 other rows =
     (if list_all (list_all is_number) rows
      then (if same_width rows then None else Some ValueError)
      else other rows)"

text \<open>
  The collaborators of \<^verbatim>\<open>build_input_and_target\<close> outside this repository, and its
  floating point parts, are parameters:
  \<^item> \<open>poly_bounding_box\<close>: width and height of a polygon's bounding box;
  \<^item> \<open>get_img_from_page_path\<close>: the image of a page, \<open>None\<close> or empty when there is none;
  \<^item> \<open>stroke_widths\<close>: the distance transform of the image and the stroke widths and
    heights of the text lines with their maxima (the rest of
    \<^verbatim>\<open>get_textline_stroke_widths_heights_dist_trafo\<close>);
  \<^item> \<open>base_node_feature\<close>: the 15 geometric, baseline, stroke width, text height and
    heading features of a region;
  \<^item> \<open>node_centers\<close>: the node positions
    \<^verbatim>\<open>np.array(node_features, dtype=np.float32)[:, 2:4] * [norm_x, norm_y]\<close>, or the
    exception of this conversion;
  \<^item> \<open>Delaunay\<close> and \<open>round_base\<close>: as above;
  \<^item> \<open>sim_feat_extractor\<close>: the similarity table of the text regions, when an extractor
    is given;
  \<^item> \<open>visual_regions_of\<close>: the visual regions of the nodes and the padded array of the
    visual regions of the edges (bounding boxes and convex hulls of
    \<^verbatim>\<open>citlab_python_util\<close>), and \<open>visual_region_arrays\<close>: their conversion to arrays in
    the result;
  \<^item> \<open>np_array_other\<close>: numpy's conversion of feature rows that do not hold numbers only.
\<close>

record ('pos, 'sw, 'vis) collaborators =
  poly_bounding_box :: "point list \<Rightarrow> int \<times> int"
  get_img_from_page_path :: "string \<Rightarrow> string option"
  stroke_widths :: "string \<Rightarrow> text_line list \<Rightarrow> error + 'sw"
  base_node_feature :: "'sw \<Rightarrow> text_region \<Rightarrow> error + json list"
  node_centers :: "json list list \<Rightarrow> error + 'pos"
  Delaunay :: "'pos \<Rightarrow> (nat list \<times> nat list) option"
  round_base :: "'pos \<Rightarrow> 'pos"
  sim_feat_extractor :: "(text_region list \<Rightarrow> json) option"
  visual_regions_of :: "text_region list \<Rightarrow> (nat \<times> nat) list \<Rightarrow> error + 'vis"
  visual_region_arrays :: "'vis \<Rightarrow> error option"
  np_array_other :: "json list list \<Rightarrow> error option"

record 'vis graph =
  graph_num_nodes :: nat
  graph_interacting_nodes :: "(nat \<times> nat) list"
  graph_node_features :: "json list list"
  graph_edge_features :: "json list list"
  graph_visual_regions :: "'vis option"
  graph_gt_relations :: "(nat \<times> nat \<times> nat) list"

text \<open>\<^verbatim>\<open>os.path.basename\<close>: what follows the last slash.\<close>

definition basename :: "string \<Rightarrow> string" where
  "basename path = rev (takeWhile (\<lambda>c. c \<noteq> CHR ''/'') (rev path))"

text \<open>The loop over the text regions that builds the node features.\<close>

fun node_feature_loop ::
  "('sw \<Rightarrow> text_region \<Rightarrow> error + json list) \<Rightarrow> 'sw \<Rightarrow> json list \<Rightarrow> string
     \<Rightarrow> text_region list \<Rightarrow> error + json list list" where
  "node_feature_loop base sw external_data page_name [] = Inr []"
| "node_feature_loop base sw external_data page_name (text_region # text_regions) =
     (case base sw text_region of
        Inl e \<Rightarrow> Inl e
      | Inr node_feature \<Rightarrow>
          (case node_external_features external_data page_name (region_id text_region) node_feature of
             Inl e \<Rightarrow> Inl e
           | Inr node_feature' \<Rightarrow>
               (case node_feature_loop base sw external_data page_name text_regions of
                  Inl e \<Rightarrow> Inl e
                | Inr node_features \<Rightarrow> Inr (node_feature' # node_features))))"

text \<open>The choice of the edge set.\<close>

definition select_interacting_nodes ::
  "('pos, 'sw, 'vis) collaborators \<Rightarrow> interaction \<Rightarrow> nat \<Rightarrow> json list list
     \<Rightarrow> error + (nat \<times> nat) list" where
  "select_interacting_nodes c interaction num_nodes node_features =
     (if interaction = Fully \<or> num_nodes < 4 then Inr (fully_connected_edges num_nodes)
      else (case node_centers c node_features of
              Inl e \<Rightarrow> Inl e
            | Inr positions \<Rightarrow>
                delaunay_edges (Delaunay c) (round_base c) num_nodes positions))"

text \<open>
  The feature of one edge.  \<^verbatim>\<open>text_regions[node_a]\<close> raises IndexError past the end of
  the list.  The line strategy hands back the separator regions it has closed.
\<close>

definition edge_feature_of ::
  "separators \<Rightarrow> json list \<Rightarrow> json option \<Rightarrow> string \<Rightarrow> text_region list \<Rightarrow> nat \<times> nat
     \<Rightarrow> separator_region list option
     \<Rightarrow> (error + json list) \<times> separator_region list option" where
  "edge_feature_of separators external_data tb_sim_dict page_name text_regions edge separator_regions =
     (case edge of (node_a, node_b) \<Rightarrow>
        if node_a \<ge> length text_regions \<or> node_b \<ge> length text_regions
        then (Inl IndexError, separator_regions)
        else
          let text_region_a = text_regions ! node_a; text_region_b = text_regions ! node_b;
              (sep_block, separator_regions') =
                (if truthy_list separator_regions then
                   (case separator_regions of
                      None \<Rightarrow> (Inr [0, 0], separator_regions)
                    | Some seps \<Rightarrow>
                        if separators = Line then
                          (case get_edge_separator_feature_line text_region_a text_region_b seps of
                             (r, seps') \<Rightarrow> (r, Some seps'))
                        else (get_edge_separator_feature_bb text_region_a text_region_b seps,
                              separator_regions))
                 else (Inr [0, 0], separator_regions))
          in (and_then sep_block (\<lambda>sep_feature.
                and_then (case tb_sim_dict of
                            None \<Rightarrow> Inr (map JNum sep_feature)
                          | Some sim \<Rightarrow>
                              if py_truthy sim
                              then edge_similarity_block sim (region_id text_region_a)
                                     (region_id text_region_b) (map JNum sep_feature)
                              else Inr (map JNum sep_feature))
                  (\<lambda>edge_feature. edge_external_features external_data page_name
                     (region_id text_region_a) (region_id text_region_b) edge_feature)),
              separator_regions'))"

fun edge_feature_loop ::
  "separators \<Rightarrow> json list \<Rightarrow> json option \<Rightarrow> string \<Rightarrow> text_region list \<Rightarrow> (nat \<times> nat) list
     \<Rightarrow> separator_region list option \<Rightarrow> error + json list list" where
  "edge_feature_loop separators external_data tb_sim_dict page_name text_regions [] separator_regions =
     Inr []"
| "edge_feature_loop separators external_data tb_sim_dict page_name text_regions (edge # edges)
       separator_regions =
     (case edge_feature_of separators external_data tb_sim_dict page_name text_regions edge
             separator_regions of
        (Inl e, _) \<Rightarrow> Inl e
      | (Inr edge_feature, separator_regions') \<Rightarrow>
          (case edge_feature_loop separators external_data tb_sim_dict page_name text_regions edges
                  separator_regions' of
             Inl e \<Rightarrow> Inl e
           | Inr edge_features \<Rightarrow> Inr (edge_feature # edge_features)))"

text \<open>
  \<^verbatim>\<open>build_input_and_target\<close>: \<open>Inr None\<close> is the tuple of \<^verbatim>\<open>None\<close>s, \<open>Inl e\<close> an
  exception that leaves the function.  The image is looked up first in
  \<^verbatim>\<open>get_textline_stroke_widths_heights_dist_trafo\<close>, which raises ValueError when
  there is none.  The text lines handed to \<^verbatim>\<open>discard_text_regions_and_lines\<close> are a
  list, so they come back as one.  The visual regions are built when the flag
  \<open>visual_regions\<close> is set.  The result tuple converts the node features, then the edge
  features (when there are edges), then the visual regions to arrays.
\<close>

definition build_input_and_target ::
  "('pos, 'sw, 'vis) collaborators \<Rightarrow> page \<Rightarrow> interaction \<Rightarrow> separators \<Rightarrow> bool
     \<Rightarrow> json list \<Rightarrow> error + 'vis graph option" where
  "build_input_and_target c pg interaction separators visual_regions external_data =
     (case page_text_regions pg of
        None \<Rightarrow> Inr None
      | Some all_text_regions \<Rightarrow>
          (case discard_text_regions_and_lines (poly_bounding_box c) all_text_regions
                  (Some (page_text_lines pg)) of
             (text_regions, text_lines') \<Rightarrow>
               let num_nodes = length text_regions;
                   page_name = basename (page_path pg) in
               if num_nodes \<le> 1 then Inr None
               else
                 (case get_img_from_page_path c (page_path pg) of
                    None \<Rightarrow> Inl ValueError
                  | Some img_path \<Rightarrow>
                      if img_path = [] then Inl ValueError
                      else
                        and_then (stroke_widths c img_path
                                    (case text_lines' of None \<Rightarrow> [] | Some ls \<Rightarrow> ls)) (\<lambda>sw.
                        and_then (node_feature_loop (base_node_feature c) sw external_data
                                    page_name text_regions) (\<lambda>node_features.
                        and_then (select_interacting_nodes c interaction num_nodes node_features)
                          (\<lambda>interacting_nodes.
                        and_then (edge_feature_loop separators external_data
                                    (map_option (\<lambda>extractor. extractor text_regions)
                                       (sim_feat_extractor c))
                                    page_name text_regions interacting_nodes
                                    (page_separator_regions pg))
                          (\<lambda>edge_features.
                        and_then (if visual_regions
                                  then (case visual_regions_of c text_regions interacting_nodes of
                                          Inl e \<Rightarrow> Inl e
                                        | Inr visual \<Rightarrow> Inr (Some visual))
                                  else Inr None) (\<lambda>visual.
                        and_then (ground_truth (page_article_dict pg) text_regions) (\<lambda>gt_relations.
                        (case np_array_float32 (np_array_other c) node_features of
                           Some e \<Rightarrow> Inl e
                         | None \<Rightarrow>
                             (case (if edge_features = [] then None
                                    else np_array_float32 (np_array_other c) edge_features) of
                                Some e \<Rightarrow> Inl e
                              | None \<Rightarrow>
                                  (case (case visual of
                                           None \<Rightarrow> None
                                         | Some v \<Rightarrow> visual_region_arrays c v) of
                                     Some e \<Rightarrow> Inl e
                                   | None \<Rightarrow>
                                       Inr (Some \<lparr>graph_num_nodes = num_nodes,
                                                  graph_interacting_nodes = interacting_nodes,
                                                  graph_node_features = node_features,
                                                  graph_edge_features = edge_features,
                                                  graph_visual_regions = visual,
                                                  graph_gt_relations = gt_relations\<rparr>)))))))))))))"

section \<open>Batches of pages\<close>

text \<open>
  \<^verbatim>\<open>generate_feature_jsons\<close> runs \<^verbatim>\<open>build_input_and_target\<close> on every page in turn.
  The state of the loop is the list of pages whose json file has been written and the list
  \<^verbatim>\<open>skipped_pages\<close>.  The loop has no exception handler: an exception of
  \<^verbatim>\<open>build_input_and_target\<close> leaves \<^verbatim>\<open>generate_feature_jsons\<close>, and the result holds it
  with the state reached.
\<close>

record batch =
  written :: "string list"
  skipped_pages :: "string list"

fun generate_loop ::
  "(page \<Rightarrow> error + 'g option) \<Rightarrow> page list \<Rightarrow> batch \<Rightarrow> error option \<times> batch" where
  "generate_loop build [] state = (None, state)"
| "generate_loop build (pg # pages) state =
     (case build pg of
        Inl e \<Rightarrow> (Some e, state)
      | Inr None \<Rightarrow>
          generate_loop build pages (state\<lparr>skipped_pages := skipped_pages state @ [page_path pg]\<rparr>)
      | Inr (Some g) \<Rightarrow>
          generate_loop build pages (state\<lparr>written := written state @ [page_path pg]\<rparr>))"

definition generate_feature_jsons ::
  "('pos, 'sw, 'vis) collaborators \<Rightarrow> page list \<Rightarrow> interaction \<Rightarrow> separators \<Rightarrow> bool
     \<Rightarrow> json list
     \<Rightarrow> error option \<times> batch" where
  "generate_feature_jsons c page_paths interaction separators visual_regions json_data =
     generate_loop
       (\<lambda>pg. build_input_and_target c pg interaction separators visual_regions json_data)
       page_paths \<lparr>written = [], skipped_pages = []\<rparr>"

section \<open>Notions used in the statements\<close>








text \<open>
  The separator's y-range lies between the two regions' y-ranges, bounds included: one
  region ends at or above the top of the separator and the other starts at or below its
  bottom.
\<close>

definition between_y :: "bbox \<Rightarrow> bbox \<Rightarrow> bbox \<Rightarrow> bool" where
  "between_y bb_a bb_b bb_sep =
     (case bb_a of (min_x_a, max_x_a, min_y_a, max_y_a) \<Rightarrow>
      case bb_b of (min_x_b, max_x_b, min_y_b, max_y_b) \<Rightarrow>
      case bb_sep of (min_x_sep, max_x_sep, min_y_sep, max_y_sep) \<Rightarrow>
        (max_y_a \<le> min_y_sep \<and> max_y_sep \<le> min_y_b) \<or>
        (max_y_b \<le> min_y_sep \<and> max_y_sep \<le> min_y_a))"

text \<open>
  What a call of the line strategy may do to a separator region: nothing, or append the
  first point of its polygon when the polygon is not closed.
\<close>

definition closed_or_same :: "separator_region \<Rightarrow> separator_region \<Rightarrow> bool" where
  "closed_or_same s s' =
     (s' = s \<or>
      (sep_points s \<noteq> [] \<and> hd (sep_points s) \<noteq> last (sep_points s) \<and>
       s' = s\<lparr>sep_points := sep_points s @ [hd (sep_points s)]\<rparr>))"




text \<open>The two tests of the discard pass, and the regions of a page that pass both.\<close>

definition too_small :: "(point list \<Rightarrow> int \<times> int) \<Rightarrow> text_region \<Rightarrow> bool" where
  "too_small bounding_box tr =
     (fst (bounding_box (region_points tr)) < 10 \<or> snd (bounding_box (region_points tr)) < 10)"

definition kept :: "(point list \<Rightarrow> int \<times> int) \<Rightarrow> text_region \<Rightarrow> bool" where
  "kept bounding_box tr = (\<not> no_text tr \<and> \<not> too_small bounding_box tr)"

definition surviving_regions ::
  "('pos, 'sw, 'vis) collaborators \<Rightarrow> page \<Rightarrow> text_region list" where
  "surviving_regions c pg =
     (case page_text_regions pg of
        None \<Rightarrow> []
      | Some all_text_regions \<Rightarrow>
          fst (discard_text_regions_and_lines (poly_bounding_box c) all_text_regions
                 (Some (page_text_lines pg))))"

section \<open>Example pages\<close>

text \<open>
  Two text regions side by side with a separator region between them, whose polygon is
  not closed and whose bounding box is 4 wide and 10 high.
\<close>

definition region_left :: text_region where
  "region_left =
     \<lparr>region_id = ''r1'', region_points = [(0, 0), (10, 0), (10, 10), (0, 10)],
      region_type = ''paragraph'', text_lines = [\<lparr>line_id = ''l1'', line_text = ''abc''\<rparr>]\<rparr>"

definition region_right :: text_region where
  "region_right =
     \<lparr>region_id = ''r2'', region_points = [(20, 0), (30, 0), (30, 10), (20, 10)],
      region_type = ''paragraph'', text_lines = [\<lparr>line_id = ''l2'', line_text = ''def''\<rparr>]\<rparr>"

definition separator_between :: "string option \<Rightarrow> separator_region" where
  "separator_between tag =
     \<lparr>sep_id = ''s1'', sep_points = [(14, 0), (18, 0), (18, 10), (14, 10)],
      get_orientation = tag\<rparr>"

text \<open>
  Three regions for the discard pass: one whose only line has no text, one with a
  bounding box of 6 by 6, and one that passes.  \<open>ex_bounding_box\<close> measures a bounding box
  by its number of pixel columns and rows.
\<close>

definition ex_bounding_box :: "point list \<Rightarrow> int \<times> int" where
  "ex_bounding_box points =
     (case get_bounding_box points of
        Inl e \<Rightarrow> (0, 0)
      | Inr (min_x, max_x, min_y, max_y) \<Rightarrow> (max_x - min_x + 1, max_y - min_y + 1))"

definition empty_region :: text_region where
  "empty_region =
     \<lparr>region_id = ''e1'', region_points = [(0, 0), (100, 0), (100, 50), (0, 50)],
      region_type = ''paragraph'', text_lines = [\<lparr>line_id = ''le'', line_text = []\<rparr>]\<rparr>"

definition small_region :: text_region where
  "small_region =
     \<lparr>region_id = ''s1'', region_points = [(0, 60), (5, 60), (5, 65), (0, 65)],
      region_type = ''paragraph'', text_lines = [\<lparr>line_id = ''ls'', line_text = ''ab''\<rparr>]\<rparr>"

definition good_region :: "string \<Rightarrow> text_region" where
  "good_region rid =
     \<lparr>region_id = rid, region_points = [(0, 100), (100, 100), (100, 150), (0, 150)],
      region_type = ''paragraph'', text_lines = [\<lparr>line_id = rid @ ''_l'', line_text = ''text''\<rparr>]\<rparr>"

text \<open>
  Collaborators for the examples: the page \<^verbatim>\<open>page/no_image.xml\<close> has no image, and
  the triangulation raises on every input (as for collinear centres).
\<close>

definition ex_collaborators :: "(unit, unit, unit) collaborators" where
  "ex_collaborators =
     \<lparr>poly_bounding_box = ex_bounding_box,
      get_img_from_page_path =
        (\<lambda>path. if path = ''page/no_image.xml'' then None else Some ''image.jpg''),
      stroke_widths = (\<lambda>img_path lines. Inr ()),
      base_node_feature = (\<lambda>sw text_region. Inr []),
      node_centers =
        (\<lambda>features. case np_array_float32 (\<lambda>rows. Some ValueError) features of
                       Some e \<Rightarrow> Inl e | None \<Rightarrow> Inr ()),
      Delaunay = (\<lambda>positions. None),
      round_base = (\<lambda>positions. positions),
      sim_feat_extractor = None,
      visual_regions_of = (\<lambda>regions edges. Inr ()),
      visual_region_arrays = (\<lambda>visual. None),
      np_array_other = (\<lambda>rows. Some ValueError)\<rparr>"

definition ex_page :: "string \<Rightarrow> text_region list \<Rightarrow> page" where
  "ex_page path regions =
     \<lparr>page_path = path, page_text_regions = Some regions, page_separator_regions = None,
      page_text_lines = concat (map text_lines regions),
      page_article_dict = (\<lambda>rid. Some (AStr ''a1''))\<rparr>"





section \<open>Properties of the topology\<close>

lemma zip_replicate_upt: "zip (replicate n i) [0..<n] = map (Pair i) [0..<n]"
  by (simp add: zip_replicate1)

lemma full_grid:
  "concat (map2 zip (map (\<lambda>i. replicate n i) [0..<m]) (replicate m [0..<n]))
     = concat (map (\<lambda>i. map (Pair i) [0..<n]) [0..<m])"
proof -
  have "map2 zip (map (\<lambda>i. replicate n i) [0..<m]) (replicate m [0..<n])
        = map (\<lambda>i. map (Pair i) [0..<n]) [0..<m]"
    by (rule nth_equalityI) (simp_all add: zip_replicate_upt)
  then show ?thesis by simp
qed

lemma diag_index:
  assumes "m < n" "j < n"
  shows "(m * n + j \<in> set (del_indices n)) = (j = m)"
proof
  assume "m * n + j \<in> set (del_indices n)"
  then obtain k where k: "k < n" "m * n + j = k * n + k"
    by (auto simp: del_indices_def)
  have "(m * n + j) div n = m" using assms by simp
  moreover have "(k * n + k) div n = k" using k(1) by simp
  ultimately have "m = k" using k(2) by simp
  with k(2) show "j = m" by simp
next
  assume "j = m"
  with assms have "m * n + j = m * (n + 1)" by simp
  with assms show "m * n + j \<in> set (del_indices n)"
    unfolding del_indices_def by force
qed

lemma filter_neq_upt:
  assumes "i < n"
  shows "filter (\<lambda>j. j \<noteq> i) [0..<n] = [0..<i] @ [Suc i..<n]"
proof -
  have "[0..<n] = [0..<i] @ i # [Suc i..<n]"
    using assms
    by (metis le_add_diff_inverse less_imp_le_nat upt_add_eq_append upt_conv_Cons zero_le
        add.commute)
  then show ?thesis by (simp add: filter_empty_conv[THEN iffD2])
qed

lemma np_delete_grid:
  assumes "m \<le> n"
  shows "np_delete (concat (map (\<lambda>i. map (Pair i) [0..<n]) [0..<m])) (del_indices n)
         = concat (map (\<lambda>i. map (Pair i) (filter (\<lambda>j. j \<noteq> i) [0..<n])) [0..<m])"
  using assms
proof (induction m)
  case 0
  then show ?case by (simp add: np_delete_def)
next
  case (Suc m)
  let ?D = "set (del_indices n)"
  have len: "length (concat (map (\<lambda>i. map (Pair i) [0..<n]) [0..<m])) = m * n"
    by (induction m) simp_all
  have row: "enumerate (m * n) (map (Pair m) [0..<n]) = map (\<lambda>j. (m * n + j, (m, j))) [0..<n]"
    by (rule nth_equalityI) (simp_all add: nth_enumerate_eq)
  have "map snd (filter (\<lambda>(k, x). k \<notin> ?D) (enumerate (m * n) (map (Pair m) [0..<n])))
        = map (Pair m) (filter (\<lambda>j. m * n + j \<notin> ?D) [0..<n])"
    unfolding row by (simp add: filter_map comp_def)
  also have "filter (\<lambda>j. m * n + j \<notin> ?D) [0..<n] = filter (\<lambda>j. j \<noteq> m) [0..<n]"
    using Suc.prems by (intro filter_cong refl) (simp add: diag_index)
  finally have last:
    "map snd (filter (\<lambda>(k, x). k \<notin> ?D) (enumerate (m * n) (map (Pair m) [0..<n])))
       = map (Pair m) (filter (\<lambda>j. j \<noteq> m) [0..<n])" .
  from Suc have IH:
    "np_delete (concat (map (\<lambda>i. map (Pair i) [0..<n]) [0..<m])) (del_indices n)
       = concat (map (\<lambda>i. map (Pair i) (filter (\<lambda>j. j \<noteq> i) [0..<n])) [0..<m])"
    by simp
  show ?case
    using IH last by (simp add: np_delete_def enumerate_append_eq len)
qed

lemma length_fully_order_aux:
  "m \<le> n \<Longrightarrow>
   length (concat (map (\<lambda>i. map (Pair i) (filter (\<lambda>j. j \<noteq> i) [0..<n])) [0..<m])) = m * (n - 1)"
  by (induction m) (simp_all add: filter_neq_upt)

text \<open>
  Claim C7.  For every number of nodes (so for every \<open>N \<ge> 2\<close>) the Fully topology is the
  list of all ordered pairs in the order outer source index, inner target index, with the
  self-pairs removed; it has \<open>N (N - 1)\<close> edges and no self-loop.
\<close>

theorem fully_connected_edges_order:
  "fully_connected_edges n = fully_order n
   \<and> length (fully_connected_edges n) = n * (n - 1)
   \<and> \<not> (\<exists>i. (i, i) \<in> set (fully_connected_edges n))"
proof -
  have eq: "fully_connected_edges n = fully_order n"
    by (simp add: fully_connected_edges_def fully_order_def full_grid np_delete_grid Let_def)
  have len: "length (fully_order n) = n * (n - 1)"
    by (simp add: fully_order_def length_fully_order_aux)
  have "\<not> (\<exists>i. (i, i) \<in> set (fully_order n))"
    by (auto simp: fully_order_def)
  with eq len show ?thesis by simp
qed

theorem fully_connected_edges_order_witness:
  "fully_connected_edges 3 = [(0, 1), (0, 2), (1, 0), (1, 2), (2, 0), (2, 1)]
   \<and> length (fully_connected_edges 3) = 3 * (3 - 1)
   \<and> \<not> (\<exists>i. (i, i) \<in> set (fully_connected_edges 3))"
proof -
  have ord: "fully_order 3 = [(0, 1), (0, 2), (1, 0), (1, 2), (2, 0), (2, 1)]"
    by (simp add: fully_order_def upt_rec)
  note inst = fully_connected_edges_order [of 3]
  from inst have "fully_connected_edges 3 = fully_order 3" by (rule conjunct1)
  then have a: "fully_connected_edges 3 = [(0, 1), (0, 2), (1, 0), (1, 2), (2, 0), (2, 1)]"
    by (simp only: ord)
  from inst have b: "length (fully_connected_edges 3) = 3 * (3 - 1)
      \<and> \<not> (\<exists>i. (i, i) \<in> set (fully_connected_edges 3))"
    by (rule conjunct2)
  from a b show ?thesis by (rule conjI)
qed

section \<open>Properties of the separator classifier\<close>

subsection \<open>The orientation tag in the line strategy\<close>

text \<open>
  Claim C1.  On a hit the line strategy should classify by the separator's orientation
  tag and use the ratio of the bounding box only for a region without tag.  The segment
  between the centres of \<open>region_left\<close> and \<open>region_right\<close> crosses the separator
  between them, which is tagged vertical and whose bounding box has ratio 2.5: the line
  strategy sets the horizontal flag, where the bounding-box strategy sets the vertical
  one.  The branch for the vertical tag is never taken, so a region tagged vertical is
  classified by its ratio.
\<close>

theorem line_strategy_ignores_vertical_tag:
  "fst (get_edge_separator_feature_line region_left region_right
          [separator_between (Some ''vertical'')]) = Inr [1, 0]
   \<and> get_edge_separator_feature_bb region_left region_right
          [separator_between (Some ''vertical'')] = Inr [0, 1]"
  by code_simp

subsection \<open>The polygon of a separator region\<close>

text \<open>
  Claim C4.  A call of a strategy should leave its inputs as they are.  The line strategy
  hands the point list of a separator region to \<^verbatim>\<open>line_poly_intersection\<close>, which
  appends the first point to a polygon that is not closed: after the call the separator
  between \<open>region_left\<close> and \<open>region_right\<close> has five points instead of four.
\<close>

theorem line_strategy_closes_polygon:
  "sep_points (separator_between None) = [(14, 0), (18, 0), (18, 10), (14, 10)]
   \<and> get_edge_separator_feature_line region_left region_right [separator_between None]
       = (Inr [1, 0],
          [\<lparr>sep_id = ''s1'', sep_points = [(14, 0), (18, 0), (18, 10), (14, 10), (14, 0)],
            get_orientation = None\<rparr>])"
  by code_simp

lemma closed_or_same_refl: "closed_or_same s s"
  by (simp add: closed_or_same_def)

lemma line_poly_intersection_closes:
  "line_poly_intersection l (sep_points s) = Inr (hit, ps)
   \<Longrightarrow> closed_or_same s (s\<lparr>sep_points := ps\<rparr>)"
  by (auto simp: line_poly_intersection_def closed_or_same_def Let_def split: if_splits)

lemma line_poly_intersection_again:
  "line_poly_intersection l ps = Inr (hit, ps')
   \<Longrightarrow> line_poly_intersection l ps' = Inr (hit, ps')"
  by (auto simp: line_poly_intersection_def Let_def split: if_splits)

lemma line_poly_intersection_bounding_box:
  "line_poly_intersection l ps = Inr (hit, ps') \<Longrightarrow> get_bounding_box ps' = get_bounding_box ps"
  by (auto simp: line_poly_intersection_def get_bounding_box_def Let_def split: if_splits)

lemma separator_loop_line_frame:
  "separator_loop_line l h v seps = (r, seps') \<Longrightarrow> list_all2 closed_or_same seps seps'"
proof (induction seps arbitrary: h v r seps')
  case Nil
  then show ?case by simp
next
  case (Cons s rest)
  show ?case
  proof (cases "get_bounding_box (sep_points s)")
    case (Inl e)
    with Cons.prems show ?thesis
      by (auto simp: closed_or_same_refl list_all2_refl)
  next
    case (Inr bb)
    obtain a b c d where bb: "bb = (a, b, c, d)" by (cases bb rule: prod_cases4)
    from Cons.prems Inr bb show ?thesis
      by (auto simp: Let_def closed_or_same_refl list_all2_refl
          split: sum.splits prod.splits if_splits
          dest!: Cons.IH line_poly_intersection_closes)
  qed
qed

lemma separator_loop_line_again:
  "separator_loop_line l h v seps = (r, seps') \<Longrightarrow> separator_loop_line l h v seps' = (r, seps')"
proof (induction seps arbitrary: h v r seps')
  case Nil
  then show ?case by simp
next
  case (Cons s rest)
  show ?case
  proof (cases "get_bounding_box (sep_points s)")
    case (Inl e)
    with Cons.prems show ?thesis by auto
  next
    case (Inr bb)
    obtain a b c d where bb: "bb = (a, b, c, d)" by (cases bb rule: prod_cases4)
    show ?thesis
    proof (cases "line_poly_intersection l [(a, c), (b, c), (a, d), (b, d)]")
      case (Inl e)
      with Cons.prems Inr bb show ?thesis by auto
    next
      case P: (Inr pr)
      obtain prior q where pr: "pr = (prior, q)" by (cases pr)
      show ?thesis
      proof (cases "prior \<or> line_in_bounding_box l a b c d")
        case False
        with Cons.prems Inr bb P pr show ?thesis
          by (auto simp: Let_def split: prod.splits dest: Cons.IH)
      next
        case True
        show ?thesis
        proof (cases "line_poly_intersection l (sep_points s)")
          case (Inl e)
          with Cons.prems Inr bb P pr True show ?thesis by auto
        next
          case H: (Inr hp)
          obtain hit ps where hp: "hp = (hit, ps)" by (cases hp)
          note again = line_poly_intersection_again [OF H [unfolded hp]]
          note box = line_poly_intersection_bounding_box [OF H [unfolded hp]]
          from Cons.prems Inr bb P pr True H hp again box show ?thesis
            by (auto simp: Let_def split: prod.splits if_splits dest: Cons.IH)
        qed
      qed
    qed
  qed
qed

text \<open>
  What the line strategy does keep: a call changes a separator region at most by closing
  its polygon, and a second call on the regions it leaves returns the same feature and
  changes nothing.
\<close>

theorem line_strategy_frame:
  assumes "get_edge_separator_feature_line a b seps = (r, seps')"
  shows "list_all2 closed_or_same seps seps'
         \<and> get_edge_separator_feature_line a b seps' = (r, seps')"
proof (cases "get_bounding_box (region_points a)")
  case (Inl e)
  with assms show ?thesis
    by (auto simp: get_edge_separator_feature_line_def closed_or_same_refl list_all2_refl)
next
  case A: (Inr bb_a)
  show ?thesis
  proof (cases "get_bounding_box (region_points b)")
    case (Inl e)
    with assms A show ?thesis
      by (auto simp: get_edge_separator_feature_line_def closed_or_same_refl list_all2_refl)
  next
    case B: (Inr bb_b)
    obtain r0 where loop: "separator_loop_line (center bb_a, center bb_b) False False seps = (r0, seps')"
      using assms A B
      by (cases "separator_loop_line (center bb_a, center bb_b) False False seps")
         (auto simp: get_edge_separator_feature_line_def split: sum.splits)
    from separator_loop_line_frame [OF loop] separator_loop_line_again [OF loop] assms A B loop
    show ?thesis
      by (auto simp: get_edge_separator_feature_line_def split: sum.splits)
  qed
qed

theorem line_strategy_frame_witness:
  "get_edge_separator_feature_line region_left region_right [separator_between None]
     = (Inr [1, 0], [(separator_between None)\<lparr>sep_points := [(14, 0), (18, 0), (18, 10), (14, 10), (14, 0)]\<rparr>])
   \<and> list_all2 closed_or_same [separator_between None]
       [(separator_between None)\<lparr>sep_points := [(14, 0), (18, 0), (18, 10), (14, 10), (14, 0)]\<rparr>]
   \<and> get_edge_separator_feature_line region_left region_right
       [(separator_between None)\<lparr>sep_points := [(14, 0), (18, 0), (18, 10), (14, 10), (14, 0)]\<rparr>]
     = (Inr [1, 0], [(separator_between None)\<lparr>sep_points := [(14, 0), (18, 0), (18, 10), (14, 10), (14, 0)]\<rparr>])"
proof -
  have h: "get_edge_separator_feature_line region_left region_right [separator_between None]
     = (Inr [1, 0], [(separator_between None)\<lparr>sep_points := [(14, 0), (18, 0), (18, 10), (14, 10), (14, 0)]\<rparr>])"
    by code_simp
  from h line_strategy_frame [OF h] show ?thesis by (rule conjI)
qed

subsection \<open>The predicates of the bounding-box strategy\<close>





text \<open>
  The horizontal predicate accepts more than a separator between the regions: two regions
  side by side that both reach above and below the separator pass its test labelled
  \<^verbatim>\<open>A over S over B\<close>, which compares the top of one region and the bottom of the other
  with the separator.
\<close>

lemma is_horizontally_separated_spanning:
  "is_horizontally_separated (0, 10, 0, 100) (20, 30, 20, 200) (5, 25, 40, 50)
   \<and> \<not> between_y (0, 10, 0, 100) (20, 30, 20, 200) (5, 25, 40, 50)"
  by (simp add: between_y_def)

subsection \<open>Symmetry in the two regions\<close>

lemma orient_swap: "orient q p r = - orient p q r"
  by (simp add: orient_def algebra_simps)

lemma in_box_swap: "in_box q p r = in_box p q r"
  by (auto simp: in_box_def min_def max_def)

lemma intersects_rev: "intersects (q, p) s = intersects (p, q) s"
proof (cases "p = q \<or> fst s = snd s")
  case True
  then show ?thesis by (auto simp: intersects_def Let_def)
next
  case False
  then have "q \<noteq> p" "p \<noteq> q" "fst s \<noteq> snd s" by auto
  then show ?thesis
    by (simp add: intersects_def Let_def orient_swap [of q p] in_box_swap [of q p]) blast
qed

lemma segments_hit_rev: "segments_hit (q, p) polygon = segments_hit (p, q) polygon"
  by (induction "(p, q)" polygon rule: segments_hit.induct) (simp_all add: intersects_rev)

lemma line_poly_intersection_rev:
  "line_poly_intersection (q, p) polygon = line_poly_intersection (p, q) polygon"
  by (simp add: line_poly_intersection_def segments_hit_rev)

lemma line_in_bounding_box_rev:
  "line_in_bounding_box (q, p) a b c d = line_in_bounding_box (p, q) a b c d"
  by (simp add: line_in_bounding_box_def bounds_def min.commute max.commute)

lemma separator_loop_line_rev:
  "separator_loop_line (q, p) h v seps = separator_loop_line (p, q) h v seps"
proof (induction seps arbitrary: h v)
  case Nil
  show ?case by simp
next
  case (Cons s rest)
  show ?case
    by (simp add: Cons.IH line_poly_intersection_rev [of q p] line_in_bounding_box_rev [of q p]
             Let_def split: sum.splits prod.splits)
qed

lemma line_strategy_symmetric:
  "get_edge_separator_feature_line a b seps = get_edge_separator_feature_line b a seps"
proof (cases "get_bounding_box (region_points a)")
  case (Inl e)
  then show ?thesis
    by (cases "get_bounding_box (region_points b)")
       (auto simp: get_edge_separator_feature_line_def get_bounding_box_def split: if_splits)
next
  case A: (Inr bb_a)
  show ?thesis
  proof (cases "get_bounding_box (region_points b)")
    case (Inl e)
    with A show ?thesis
      by (auto simp: get_edge_separator_feature_line_def get_bounding_box_def split: if_splits)
  next
    case B: (Inr bb_b)
    show ?thesis
      by (simp add: get_edge_separator_feature_line_def A B
          separator_loop_line_rev [of "center bb_b" "center bb_a"])
  qed
qed

lemma is_vertically_separated_comm:
  "is_vertically_separated bb_a bb_b bb_sep = is_vertically_separated bb_b bb_a bb_sep"
  by (cases bb_a rule: prod_cases4; cases bb_b rule: prod_cases4; cases bb_sep rule: prod_cases4)
     (auto simp: Let_def)

lemma is_horizontally_separated_comm:
  "is_horizontally_separated bb_a bb_b bb_sep = is_horizontally_separated bb_b bb_a bb_sep"
  by (cases bb_a rule: prod_cases4; cases bb_b rule: prod_cases4; cases bb_sep rule: prod_cases4)
     auto

lemma separator_loop_bb_comm:
  "separator_loop_bb bb_a bb_b h v seps = separator_loop_bb bb_b bb_a h v seps"
proof (induction seps arbitrary: h v)
  case Nil
  show ?case by simp
next
  case (Cons s rest)
  show ?case
    by (simp add: Cons.IH is_vertically_separated_comm [of bb_a bb_b]
        is_horizontally_separated_comm [of bb_a bb_b] Let_def split: sum.splits)
qed

lemma bb_strategy_symmetric:
  "get_edge_separator_feature_bb a b seps = get_edge_separator_feature_bb b a seps"
proof (cases "get_bounding_box (region_points a)")
  case (Inl e)
  then show ?thesis
    by (cases "get_bounding_box (region_points b)")
       (auto simp: get_edge_separator_feature_bb_def get_bounding_box_def split: if_splits)
next
  case A: (Inr bb_a)
  show ?thesis
  proof (cases "get_bounding_box (region_points b)")
    case (Inl e)
    with A show ?thesis
      by (auto simp: get_edge_separator_feature_bb_def get_bounding_box_def split: if_splits)
  next
    case B: (Inr bb_b)
    show ?thesis
      by (simp add: get_edge_separator_feature_bb_def A B separator_loop_bb_comm [of bb_a bb_b])
  qed
qed

text \<open>
  Claim C6.  Each strategy gives the same result for the regions (A, B) and (B, A): the
  same feature or the same exception, and for the line strategy also the same separator
  regions after the call.
\<close>

theorem separator_feature_symmetric:
  "get_edge_separator_feature_line a b seps = get_edge_separator_feature_line b a seps
   \<and> get_edge_separator_feature_bb a b seps = get_edge_separator_feature_bb b a seps"
  using line_strategy_symmetric bb_strategy_symmetric by (rule conjI)

theorem separator_feature_symmetric_witness:
  "fst (get_edge_separator_feature_line region_right region_left [separator_between None])
     = Inr [1, 0]
   \<and> get_edge_separator_feature_bb region_right region_left [separator_between None]
     = Inr [1, 0]"
proof -
  have l: "fst (get_edge_separator_feature_line region_left region_right [separator_between None])
             = Inr [1, 0]"
    by code_simp
  have b: "get_edge_separator_feature_bb region_left region_right [separator_between None]
             = Inr [1, 0]"
    by code_simp
  note sym = separator_feature_symmetric [of region_left region_right "[separator_between None]"]
  from sym l have l': "fst (get_edge_separator_feature_line region_right region_left
      [separator_between None]) = Inr [1, 0]"
    by simp
  from sym b have b': "get_edge_separator_feature_bb region_right region_left
      [separator_between None] = Inr [1, 0]"
    by simp
  from l' b' show ?thesis by (rule conjI)
qed

section \<open>Properties of the ground truth\<close>










section \<open>Properties of the external feature blocks\<close>

















lemma and_then_Inr: "(and_then m f = Inr y) = (\<exists>x. m = Inr x \<and> f x = Inr y)"
  by (cases m) (simp_all add: and_then_def)







section \<open>Properties of the discard pass\<close>

text \<open>
  Claim C10.  A discarded region should leave the page's line list together with its
  lines.  The pass takes out the lines of a region that is too small, but not the lines of
  a region without text: of the three regions below only the last is kept, the line of the
  small region is removed, and the line of the region without text stays in the list from
  which the stroke widths are computed.
\<close>

theorem discard_keeps_lines_of_empty_region:
  "discard_text_regions_and_lines ex_bounding_box
     [empty_region, small_region, good_region ''r3'']
     (Some [\<lparr>line_id = ''le'', line_text = []\<rparr>, \<lparr>line_id = ''ls'', line_text = ''ab''\<rparr>,
            \<lparr>line_id = ''r3_l'', line_text = ''text''\<rparr>])
   = ([good_region ''r3''],
      Some [\<lparr>line_id = ''le'', line_text = []\<rparr>, \<lparr>line_id = ''r3_l'', line_text = ''text''\<rparr>])"
  by code_simp

lemma discard_step_fst:
  "fst (discard_step bb pl tr (regs, rm)) = (if kept bb tr then regs else remove1 tr regs)"
  by (auto simp: discard_step_def kept_def too_small_def split: prod.splits)

lemma fold_discard_step_fst:
  assumes "list_all (kept bb) pre"
  shows "fst (fold (discard_step bb pl) xs (pre @ xs, rm)) = pre @ filter (kept bb) xs"
  using assms
proof (induction xs arbitrary: pre rm)
  case Nil
  show ?case by simp
next
  case (Cons x xs)
  obtain regs' rm' where st: "discard_step bb pl x (pre @ x # xs, rm) = (regs', rm')"
    by (cases "discard_step bb pl x (pre @ x # xs, rm)")
  show ?case
  proof (cases "kept bb x")
    case True
    with st have "regs' = (pre @ [x]) @ xs"
      using discard_step_fst [of bb pl x "pre @ x # xs" rm] by simp
    moreover have "list_all (kept bb) (pre @ [x])" using Cons.prems True by simp
    ultimately show ?thesis
      using Cons.IH [of "pre @ [x]" rm'] st True by simp
  next
    case False
    with Cons.prems have "x \<notin> set pre" by (auto simp: list_all_iff)
    then have "remove1 x (pre @ x # xs) = pre @ xs" by (simp add: remove1_append)
    with st False have "regs' = pre @ xs"
      using discard_step_fst [of bb pl x "pre @ x # xs" rm] by simp
    then show ?thesis
      using Cons.IH [OF Cons.prems, of rm'] st False by simp
  qed
qed

lemma discard_regions_filter:
  "fst (discard_text_regions_and_lines bb regs pl) = filter (kept bb) regs"
  using fold_discard_step_fst [of bb "[]" pl regs "[]"]
  by (auto simp: discard_text_regions_and_lines_def split: prod.splits)

text \<open>
  The regions that the discard pass keeps are the regions that pass both tests, in their
  order: each has a line with text and a bounding box at least 10 wide and 10 high.
\<close>

theorem discard_survivors:
  "fst (discard_text_regions_and_lines bounding_box regions page_lines)
     = filter (kept bounding_box) regions
   \<and> list_all (\<lambda>tr. list_ex (\<lambda>text_line. line_text text_line \<noteq> []) (text_lines tr)
                  \<and> 10 \<le> fst (bounding_box (region_points tr))
                  \<and> 10 \<le> snd (bounding_box (region_points tr)))
       (fst (discard_text_regions_and_lines bounding_box regions page_lines))"
proof -
  have "list_all (\<lambda>tr. list_ex (\<lambda>text_line. line_text text_line \<noteq> []) (text_lines tr)
                  \<and> 10 \<le> fst (bounding_box (region_points tr))
                  \<and> 10 \<le> snd (bounding_box (region_points tr)))
          (filter (kept bounding_box) regions)"
    by (auto simp: list_all_iff list_ex_iff kept_def no_text_def too_small_def)
  then show ?thesis by (simp add: discard_regions_filter)
qed

theorem discard_survivors_witness:
  "fst (discard_text_regions_and_lines ex_bounding_box
          [empty_region, small_region, good_region ''r3''] None) = [good_region ''r3'']"
proof -
  have "filter (kept ex_bounding_box) [empty_region, small_region, good_region ''r3'']
          = [good_region ''r3'']"
    by code_simp
  with discard_survivors [of ex_bounding_box "[empty_region, small_region, good_region ''r3'']" None]
  show ?thesis by simp
qed

section \<open>Properties of the graph of a page\<close>

lemma select_small:
  "n < 4 \<Longrightarrow> select_interacting_nodes c interaction n nf = Inr (fully_connected_edges n)"
  by (simp add: select_interacting_nodes_def)

lemma build_small:
  assumes "length (surviving_regions c pg) < 4"
  shows "build_input_and_target c pg Delaunay_mode seps vis ext
           = build_input_and_target c pg Fully seps vis ext"
  using assms
  by (auto simp: build_input_and_target_def surviving_regions_def select_small Let_def
      split: option.splits prod.splits)

lemma build_edges_small:
  assumes "length (surviving_regions c pg) < 4"
    and "build_input_and_target c pg interaction seps vis ext = Inr (Some g)"
  shows "graph_interacting_nodes g = fully_connected_edges (length (surviving_regions c pg))"
  using assms
  by (auto simp: build_input_and_target_def surviving_regions_def select_small Let_def
      and_then_Inr split: option.splits prod.splits if_splits)

text \<open>
  Claim C8.  For a page with fewer than four surviving regions (so for \<open>2 \<le> N < 4\<close>),
  building in Delaunay mode gives what building in Fully mode gives: the choice of the edge
  set is the same, the whole result is the same, and the edge list of a graph that is
  built is the fully connected one.
\<close>

theorem delaunay_below_four_is_fully:
  assumes "length (surviving_regions c pg) < 4"
  shows "select_interacting_nodes c Delaunay_mode (length (surviving_regions c pg)) features
           = select_interacting_nodes c Fully (length (surviving_regions c pg)) features
       \<and> build_input_and_target c pg Delaunay_mode seps vis ext
           = build_input_and_target c pg Fully seps vis ext
       \<and> (\<forall>g. build_input_and_target c pg Delaunay_mode seps vis ext = Inr (Some g) \<longrightarrow>
              graph_interacting_nodes g
                = fully_connected_edges (length (surviving_regions c pg)))"
  using assms build_small [OF assms] build_edges_small [OF assms]
  by (simp add: select_small)

theorem delaunay_below_four_is_fully_witness:
  "length (surviving_regions ex_collaborators
      (ex_page ''page/p1.xml'' [good_region ''r1'', good_region ''r2'', good_region ''r3''])) < 4
   \<and> build_input_and_target ex_collaborators
        (ex_page ''page/p1.xml'' [good_region ''r1'', good_region ''r2'', good_region ''r3''])
        Delaunay_mode BB True []
      = build_input_and_target ex_collaborators
        (ex_page ''page/p1.xml'' [good_region ''r1'', good_region ''r2'', good_region ''r3''])
        Fully BB True []
   \<and> map_sum id (map_option graph_interacting_nodes)
        (build_input_and_target ex_collaborators
          (ex_page ''page/p1.xml'' [good_region ''r1'', good_region ''r2'', good_region ''r3''])
          Fully BB True [])
      = Inr (Some [(0, 1), (0, 2), (1, 0), (1, 2), (2, 0), (2, 1)])"
proof -
  let ?pg = "ex_page ''page/p1.xml'' [good_region ''r1'', good_region ''r2'', good_region ''r3'']"
  have h: "length (surviving_regions ex_collaborators ?pg) < 4"
    by code_simp
  have e: "map_sum id (map_option graph_interacting_nodes)
        (build_input_and_target ex_collaborators ?pg Fully BB True [])
      = Inr (Some [(0, 1), (0, 2), (1, 0), (1, 2), (2, 0), (2, 1)])"
    by code_simp
  from delaunay_below_four_is_fully [OF h, where seps = BB and vis = True and ext = "[]"]
  have "build_input_and_target ex_collaborators ?pg Delaunay_mode BB True []
      = build_input_and_target ex_collaborators ?pg Fully BB True []"
    by simp
  with h e show ?thesis by simp
qed

section \<open>Properties of a batch of pages\<close>

text \<open>
  Claim C2, as stated, fails.  In a batch whose first page has no image, and in a batch
  whose first page has four regions on which the triangulation raises twice, the exception
  leaves \<^verbatim>\<open>generate_feature_jsons\<close>: the first page is not recorded as skipped, and the
  second page, which could be built, is neither written nor skipped.
\<close>

theorem batch_abort_counterexample:
  "generate_feature_jsons ex_collaborators
     [ex_page ''page/no_image.xml'' [good_region ''r1'', good_region ''r2''],
      ex_page ''page/p2.xml'' [good_region ''r1'', good_region ''r2'']] Delaunay_mode Line True []
     = (Some ValueError, \<lparr>written = [], skipped_pages = []\<rparr>)
   \<and> generate_feature_jsons ex_collaborators
     [ex_page ''page/p1.xml''
        [good_region ''r1'', good_region ''r2'', good_region ''r3'', good_region ''r4''],
      ex_page ''page/p2.xml'' [good_region ''r1'', good_region ''r2'']] Delaunay_mode Line True []
     = (Some QhullError, \<lparr>written = [], skipped_pages = []\<rparr>)
   \<and> generate_feature_jsons ex_collaborators
     [ex_page ''page/p2.xml'' [good_region ''r1'', good_region ''r2'']] Delaunay_mode Line True []
     = (None, \<lparr>written = [''page/p2.xml''], skipped_pages = []\<rparr>)"
  by code_simp

lemma build_None_iff:
  "(build_input_and_target c pg interaction seps vis ext = Inr None)
     = (page_text_regions pg = None \<or> length (surviving_regions c pg) \<le> 1)"
  by (auto simp: build_input_and_target_def surviving_regions_def Let_def and_then_Inr
      split: option.splits prod.splits if_splits)

lemma build_no_image:
  assumes "2 \<le> length (surviving_regions c pg)"
    and "get_img_from_page_path c (page_path pg) = None
         \<or> get_img_from_page_path c (page_path pg) = Some []"
  shows "build_input_and_target c pg interaction seps vis ext = Inl ValueError"
  using assms
  by (auto simp: build_input_and_target_def surviving_regions_def Let_def
      split: option.splits prod.splits)

lemma select_delaunay_fails:
  assumes "4 \<le> n" and "node_centers c nf = Inr positions"
    and "Delaunay c (round_base c positions) = None"
    and "Delaunay c positions = None"
  shows "select_interacting_nodes c Delaunay_mode n nf = Inl QhullError"
  using assms by (simp add: select_interacting_nodes_def delaunay_edges_def)

lemma build_delaunay_fails:
  assumes "page_text_regions pg = Some all_text_regions"
    and "discard_text_regions_and_lines (poly_bounding_box c) all_text_regions
           (Some (page_text_lines pg)) = (text_regions, Some ls)"
    and "4 \<le> length text_regions"
    and "get_img_from_page_path c (page_path pg) = Some img_path" and "img_path \<noteq> []"
    and "stroke_widths c img_path ls = Inr sw"
    and "node_feature_loop (base_node_feature c) sw ext (basename (page_path pg)) text_regions
           = Inr features"
    and "node_centers c features = Inr positions"
    and "Delaunay c (round_base c positions) = None"
    and "Delaunay c positions = None"
  shows "build_input_and_target c pg Delaunay_mode seps vis ext = Inl QhullError"
  using assms
  by (simp add: build_input_and_target_def Let_def and_then_def select_interacting_nodes_def
      delaunay_edges_def)

lemma generate_loop_no_raise:
  "list_all (\<lambda>p. \<not> isl (build p)) pages \<Longrightarrow>
   generate_loop build pages st =
     (None,
      st\<lparr>written := written st @ map page_path (filter (\<lambda>p. build p \<noteq> Inr None) pages),
         skipped_pages :=
           skipped_pages st @ map page_path (filter (\<lambda>p. build p = Inr None) pages)\<rparr>)"
proof (induction pages arbitrary: st)
  case Nil
  show ?case by simp
next
  case (Cons pg pages)
  then show ?case
    by (cases "build pg") (auto split: option.splits)
qed

lemma generate_loop_raise:
  "list_all (\<lambda>p. \<not> isl (build p)) pre \<Longrightarrow> build pg = Inl e \<Longrightarrow>
   generate_loop build (pre @ pg # post) st =
     (Some e,
      st\<lparr>written := written st @ map page_path (filter (\<lambda>p. build p \<noteq> Inr None) pre),
         skipped_pages :=
           skipped_pages st @ map page_path (filter (\<lambda>p. build p = Inr None) pre)\<rparr>)"
proof (induction pre arbitrary: st)
  case Nil
  then show ?case by simp
next
  case (Cons p pre)
  then show ?case
    by (cases "build p") (auto split: option.splits)
qed

text \<open>
  Claim C2, amended.  A page without text regions or with fewer than two surviving
  regions is recorded as skipped and the batch goes on: when no page of a batch raises,
  every page is written or recorded as skipped.  An exception of
  \<^verbatim>\<open>build_input_and_target\<close> is not handled: it leaves \<^verbatim>\<open>generate_feature_jsons\<close>, the
  page that raised is not recorded as skipped and the pages after it are not processed.
  A page with two or more surviving regions and no image raises ValueError, and the choice
  of the edge set raises QhullError when the triangulation raises on the rounded and on
  the unrounded positions of four or more nodes.
\<close>

theorem batch_outcome:
  assumes "list_all (\<lambda>p. \<not> isl (build_input_and_target c p interaction seps vis ext)) pre"
  shows "generate_feature_jsons c pre interaction seps vis ext
           = (None,
              \<lparr>written = map page_path
                 (filter (\<lambda>p. \<not> (page_text_regions p = None
                                   \<or> length (surviving_regions c p) \<le> 1)) pre),
               skipped_pages = map page_path
                 (filter (\<lambda>p. page_text_regions p = None
                               \<or> length (surviving_regions c p) \<le> 1) pre)\<rparr>)
       \<and> (\<forall>pg post e. build_input_and_target c pg interaction seps vis ext = Inl e \<longrightarrow>
             generate_feature_jsons c (pre @ pg # post) interaction seps vis ext
               = (Some e, snd (generate_feature_jsons c pre interaction seps vis ext)))
       \<and> (\<forall>pg. 2 \<le> length (surviving_regions c pg)
                \<and> (get_img_from_page_path c (page_path pg) = None
                    \<or> get_img_from_page_path c (page_path pg) = Some []) \<longrightarrow>
             build_input_and_target c pg interaction seps vis ext = Inl ValueError)
       \<and> (\<forall>n features positions. 4 \<le> n
                \<and> node_centers c features = Inr positions
                \<and> Delaunay c (round_base c positions) = None
                \<and> Delaunay c positions = None \<longrightarrow>
             select_interacting_nodes c Delaunay_mode n features = Inl QhullError)
       \<and> (\<forall>pg all_text_regions text_regions ls img_path sw features positions.
             page_text_regions pg = Some all_text_regions
             \<and> discard_text_regions_and_lines (poly_bounding_box c) all_text_regions
                   (Some (page_text_lines pg)) = (text_regions, Some ls)
             \<and> 4 \<le> length text_regions
             \<and> get_img_from_page_path c (page_path pg) = Some img_path \<and> img_path \<noteq> []
             \<and> stroke_widths c img_path ls = Inr sw
             \<and> node_feature_loop (base_node_feature c) sw ext (basename (page_path pg))
                   text_regions = Inr features
             \<and> node_centers c features = Inr positions
             \<and> Delaunay c (round_base c positions) = None
             \<and> Delaunay c positions = None \<longrightarrow>
             build_input_and_target c pg Delaunay_mode seps vis ext = Inl QhullError)"
proof -
  let ?build = "\<lambda>pg. build_input_and_target c pg interaction seps vis ext"
  let ?st = "\<lparr>written = [], skipped_pages = []\<rparr>"
  have a: "generate_feature_jsons c pre interaction seps vis ext
           = (None,
              \<lparr>written = map page_path
                 (filter (\<lambda>p. \<not> (page_text_regions p = None
                                   \<or> length (surviving_regions c p) \<le> 1)) pre),
               skipped_pages = map page_path
                 (filter (\<lambda>p. page_text_regions p = None
                               \<or> length (surviving_regions c p) \<le> 1) pre)\<rparr>)"
    using generate_loop_no_raise [of ?build pre ?st, OF assms]
    by (simp add: generate_feature_jsons_def build_None_iff)
  have b: "\<forall>pg post e. ?build pg = Inl e \<longrightarrow>
             generate_feature_jsons c (pre @ pg # post) interaction seps vis ext
               = (Some e, snd (generate_feature_jsons c pre interaction seps vis ext))"
    using generate_loop_raise [of ?build pre _ _ _ ?st, OF assms]
      generate_loop_no_raise [of ?build pre ?st, OF assms]
    by (simp add: generate_feature_jsons_def)
  have c: "\<forall>pg. 2 \<le> length (surviving_regions c pg)
                \<and> (get_img_from_page_path c (page_path pg) = None
                    \<or> get_img_from_page_path c (page_path pg) = Some []) \<longrightarrow>
             ?build pg = Inl ValueError"
    by (intro allI impI, elim conjE, rule build_no_image)
  have d: "\<forall>n features positions. 4 \<le> n
                \<and> node_centers c features = Inr positions
                \<and> Delaunay c (round_base c positions) = None
                \<and> Delaunay c positions = None \<longrightarrow>
             select_interacting_nodes c Delaunay_mode n features = Inl QhullError"
    by (intro allI impI, elim conjE, rule select_delaunay_fails)
  have e: "\<forall>pg all_text_regions text_regions ls img_path sw features positions.
             page_text_regions pg = Some all_text_regions
             \<and> discard_text_regions_and_lines (poly_bounding_box c) all_text_regions
                   (Some (page_text_lines pg)) = (text_regions, Some ls)
             \<and> 4 \<le> length text_regions
             \<and> get_img_from_page_path c (page_path pg) = Some img_path \<and> img_path \<noteq> []
             \<and> stroke_widths c img_path ls = Inr sw
             \<and> node_feature_loop (base_node_feature c) sw ext (basename (page_path pg))
                   text_regions = Inr features
             \<and> node_centers c features = Inr positions
             \<and> Delaunay c (round_base c positions) = None
             \<and> Delaunay c positions = None \<longrightarrow>
             build_input_and_target c pg Delaunay_mode seps vis ext = Inl QhullError"
    by (intro allI impI, elim conjE, rule build_delaunay_fails)
  show ?thesis
    apply (rule conjI [OF a])
    apply (rule conjI [OF b])
    apply (rule conjI [OF c])
    apply (rule conjI [OF d])
    apply (rule e)
    done
qed

theorem batch_outcome_witness:
  "list_all (\<lambda>p. \<not> isl (build_input_and_target ex_collaborators p Fully BB True []))
     [ex_page ''page/p0.xml'' [good_region ''r1''],
      ex_page ''page/p1.xml'' [good_region ''r1'', good_region ''r2'']]
   \<and> generate_feature_jsons ex_collaborators
       [ex_page ''page/p0.xml'' [good_region ''r1''],
        ex_page ''page/p1.xml'' [good_region ''r1'', good_region ''r2'']] Fully BB True []
     = (None, \<lparr>written = [''page/p1.xml''], skipped_pages = [''page/p0.xml'']\<rparr>)
   \<and> generate_feature_jsons ex_collaborators
       ([ex_page ''page/p0.xml'' [good_region ''r1''],
         ex_page ''page/p1.xml'' [good_region ''r1'', good_region ''r2'']]
        @ ex_page ''page/no_image.xml'' [good_region ''r1'', good_region ''r2'']
        # [ex_page ''page/p2.xml'' [good_region ''r1'', good_region ''r2'']]) Fully BB True []
     = (Some ValueError, \<lparr>written = [''page/p1.xml''], skipped_pages = [''page/p0.xml'']\<rparr>)
   \<and> 2 \<le> length (surviving_regions ex_collaborators
        (ex_page ''page/no_image.xml'' [good_region ''r1'', good_region ''r2'']))
   \<and> get_img_from_page_path ex_collaborators
        (page_path (ex_page ''page/no_image.xml'' [good_region ''r1'', good_region ''r2''])) = None
   \<and> build_input_and_target ex_collaborators
        (ex_page ''page/no_image.xml'' [good_region ''r1'', good_region ''r2'']) Fully BB True []
       = Inl ValueError
   \<and> node_centers ex_collaborators [] = Inr ()
   \<and> Delaunay ex_collaborators (round_base ex_collaborators ()) = None
   \<and> Delaunay ex_collaborators () = None
   \<and> select_interacting_nodes ex_collaborators Delaunay_mode 4 [] = Inl QhullError"
proof -
  let ?pre = "[ex_page ''page/p0.xml'' [good_region ''r1''],
      ex_page ''page/p1.xml'' [good_region ''r1'', good_region ''r2'']]"
  let ?pg = "ex_page ''page/no_image.xml'' [good_region ''r1'', good_region ''r2'']"
  let ?post = "[ex_page ''page/p2.xml'' [good_region ''r1'', good_region ''r2'']]"
  have h: "list_all (\<lambda>p. \<not> isl (build_input_and_target ex_collaborators p Fully BB True [])) ?pre"
    by code_simp
  have s: "map page_path (filter (\<lambda>p. page_text_regions p = None
              \<or> length (surviving_regions ex_collaborators p) \<le> 1) ?pre) = [''page/p0.xml'']"
    by code_simp
  have w: "map page_path (filter (\<lambda>p. \<not> (page_text_regions p = None
              \<or> length (surviving_regions ex_collaborators p) \<le> 1)) ?pre) = [''page/p1.xml'']"
    by code_simp
  have r: "build_input_and_target ex_collaborators ?pg Fully BB True [] = Inl ValueError"
    by code_simp
  note inst = batch_outcome [OF h]
  from inst have a: "generate_feature_jsons ex_collaborators ?pre Fully BB True []
     = (None, \<lparr>written = [''page/p1.xml''], skipped_pages = [''page/p0.xml'']\<rparr>)"
    unfolding s w by (rule conjunct1)
  from inst have "\<forall>pg post e. build_input_and_target ex_collaborators pg Fully BB True [] = Inl e \<longrightarrow>
             generate_feature_jsons ex_collaborators (?pre @ pg # post) Fully BB True []
               = (Some e, snd (generate_feature_jsons ex_collaborators ?pre Fully BB True []))"
    by blast
  with r have "generate_feature_jsons ex_collaborators (?pre @ ?pg # ?post) Fully BB True []
      = (Some ValueError, snd (generate_feature_jsons ex_collaborators ?pre Fully BB True []))"
    by blast
  with a have b: "generate_feature_jsons ex_collaborators (?pre @ ?pg # ?post) Fully BB True []
      = (Some ValueError, \<lparr>written = [''page/p1.xml''], skipped_pages = [''page/p0.xml'']\<rparr>)"
    by simp
  have n: "2 \<le> length (surviving_regions ex_collaborators ?pg)"
    by code_simp
  have g: "get_img_from_page_path ex_collaborators (page_path ?pg) = None"
    by code_simp
  have d0: "node_centers ex_collaborators [] = Inr ()"
    by (simp add: ex_collaborators_def np_array_float32_def)
  have d1: "Delaunay ex_collaborators (round_base ex_collaborators ()) = None"
    by (simp add: ex_collaborators_def)
  have d2: "Delaunay ex_collaborators () = None"
    by (simp add: ex_collaborators_def)
  from inst have "\<forall>pg. 2 \<le> length (surviving_regions ex_collaborators pg)
                \<and> (get_img_from_page_path ex_collaborators (page_path pg) = None
                    \<or> get_img_from_page_path ex_collaborators (page_path pg) = Some []) \<longrightarrow>
             build_input_and_target ex_collaborators pg Fully BB True [] = Inl ValueError"
    by blast
  with n g have v: "build_input_and_target ex_collaborators ?pg Fully BB True [] = Inl ValueError"
    by blast
  from inst have "\<forall>n features positions. 4 \<le> n
                \<and> node_centers ex_collaborators features = Inr positions
                \<and> Delaunay ex_collaborators (round_base ex_collaborators positions) = None
                \<and> Delaunay ex_collaborators positions = None \<longrightarrow>
             select_interacting_nodes ex_collaborators Delaunay_mode n features = Inl QhullError"
    by blast
  with d0 d1 d2 have q: "select_interacting_nodes ex_collaborators Delaunay_mode 4 [] = Inl QhullError"
    by simp
  show ?thesis
    by (intro conjI h a b n g v d0 d1 d2 q)
qed

end
